theory Spec2Isabelle
  imports Main
begin

section \<open>JavaScript values read by the slide-level code\<close>

text \<open>
  The front-matter decoder hands back a JavaScript value. The code reads it with
  property access, optional chaining and the \<open>||\<close> operator, so the model keeps
  what these observe: \<open>undefined\<close>, \<open>null\<close>, booleans, numbers, strings and objects
  (key-value lists, looked up by key). Numbers are integers here: floating-point values
  and YAML sequences are outside the model.
\<close>

datatype jsval =
    Undefined
  | Null
  | Bool bool
  | Num int
  | Str string
  | Obj "(string \<times> jsval) list"

datatype js_error = TypeError | YAMLException

text \<open>Truthiness, as \<open>if (v)\<close> and \<open>v || w\<close> test it.\<close>

fun truthy :: "jsval \<Rightarrow> bool" where
  "truthy Undefined = False"
| "truthy Null = False"
| "truthy (Bool b) = b"
| "truthy (Num n) = (n \<noteq> 0)"
| "truthy (Str s) = (s \<noteq> [])"
| "truthy (Obj kvs) = True"

text \<open>\<open>a || b\<close>: the first operand when it is truthy, the second otherwise.\<close>

definition js_or :: "jsval \<Rightarrow> jsval \<Rightarrow> jsval" where
  "js_or a b = (if truthy a then a else b)"

text \<open>
  \<open>v[k]\<close>: reading a property of \<open>undefined\<close> or \<open>null\<close> throws a TypeError; a missing
  key of an object is \<open>undefined\<close>. None of the keys read by this code (\<open>slide-level\<close>,
  \<open>format\<close>, \<open>revealjs\<close>) is a property of a boolean, a number or a string.
\<close>

fun getProp :: "jsval \<Rightarrow> string \<Rightarrow> js_error + jsval" where
  "getProp Undefined k = Inl TypeError"
| "getProp Null k = Inl TypeError"
| "getProp (Obj kvs) k = (case map_of kvs k of None \<Rightarrow> Inr Undefined | Some v \<Rightarrow> Inr v)"
| "getProp v k = Inr Undefined"

text \<open>\<open>v?.[k]\<close>: \<open>undefined\<close> when \<open>v\<close> is \<open>undefined\<close> or \<open>null\<close>, never an error.\<close>

fun optProp :: "jsval \<Rightarrow> string \<Rightarrow> jsval" where
  "optProp Undefined k = Undefined"
| "optProp Null k = Undefined"
| "optProp (Obj kvs) k = (case map_of kvs k of None \<Rightarrow> Undefined | Some v \<Rightarrow> v)"
| "optProp v k = Undefined"

section \<open>Collaborators outside the module\<close>

text \<open>
  \<open>parseFrontMatterStr\<close> (core/yaml), \<open>getHeaderLevel\<close> (markdown/toc) and the
  language's own conversion of a string to a number are not part of the module; the
  functions below take them as parameters. The decoder either throws or returns a value;
  the string conversion returns \<open>None\<close> for NaN.
\<close>

record externals =
  parseFrontMatterStr :: "string \<Rightarrow> js_error + jsval"
  getHeaderLevel :: "string \<Rightarrow> int"
  stringToNumber :: "string \<Rightarrow> int option"

text \<open>\<open>ToNumber\<close> of a value (\<open>None\<close> is NaN), as the comparison \<open>n <= v\<close> applies it.\<close>

fun toNumber :: "externals \<Rightarrow> jsval \<Rightarrow> int option" where
  "toNumber E Undefined = None"
| "toNumber E Null = Some 0"
| "toNumber E (Bool b) = Some (if b then 1 else 0)"
| "toNumber E (Num n) = Some n"
| "toNumber E (Str s) = stringToNumber E s"
| "toNumber E (Obj kvs) = None"

text \<open>\<open>n <= v\<close> for a number \<open>n\<close>: false when \<open>v\<close> converts to NaN.\<close>

definition js_le :: "externals \<Rightarrow> int \<Rightarrow> jsval \<Rightarrow> bool" where
  "js_le E n v = (case toNumber E v of None \<Rightarrow> False | Some m \<Rightarrow> n \<le> m)"

section \<open>Tokens and location items\<close>

text \<open>
  A markdown-it token, with the fields the module reads: \<open>type\<close>, \<open>map\<close> (the source
  line range, or \<open>null\<close>) and \<open>markup\<close>.
\<close>

record token =
  tok_type :: string
  tok_map :: "(int \<times> int) option"
  tok_markup :: string

datatype RevealEditorLocationItemType = kTitle | kHeading | kHr | kCursor

record RevealEditorLocationItem =
  type :: RevealEditorLocationItemType
  level :: int
  row :: int

record RevealEditorLocation =
  items :: "RevealEditorLocationItem list"
  slideLevel :: jsval

definition simpleItem :: "RevealEditorLocationItemType \<Rightarrow> int \<Rightarrow> RevealEditorLocationItem" where
  "simpleItem ty r = \<lparr>type = ty, level = 0, row = r\<rparr>"

definition titleItem :: "int \<Rightarrow> RevealEditorLocationItem" where
  "titleItem r = simpleItem kTitle r"

definition cursorItem :: "int \<Rightarrow> RevealEditorLocationItem" where
  "cursorItem r = simpleItem kCursor r"

definition hrItem :: "int \<Rightarrow> RevealEditorLocationItem" where
  "hrItem r = simpleItem kHr r"

definition headingItem :: "int \<Rightarrow> int \<Rightarrow> RevealEditorLocationItem" where
  "headingItem r l = \<lparr>type = kHeading, level = l, row = r\<rparr>"

section \<open>slideLevelFromYaml\<close>

text \<open>
  The body of the \<open>try\<close> block: the decoder may throw, and so may a property read.
  \<open>meta[k] || meta["format"]?.["revealjs"]?.[k] || null\<close> evaluates the second operand
  only when the first is falsy.
\<close>

definition kSlideLevel :: string where
  "kSlideLevel = ''slide-level''"

definition slideLevelFromYaml_try :: "externals \<Rightarrow> string \<Rightarrow> js_error + jsval" where
  "slideLevelFromYaml_try E str =
     (case parseFrontMatterStr E str of
        Inl e \<Rightarrow> Inl e
      | Inr meta \<Rightarrow>
          if truthy meta then
            (case getProp meta kSlideLevel of
               Inl e \<Rightarrow> Inl e
             | Inr a \<Rightarrow>
                 if truthy a then Inr a
                 else
                   (case getProp meta ''format'' of
                      Inl e \<Rightarrow> Inl e
                    | Inr f \<Rightarrow>
                        Inr (js_or (optProp (optProp f ''revealjs'') kSlideLevel) Null)))
          else Inr Null)"

text \<open>The \<open>catch\<close> clause turns every error into \<open>null\<close>.\<close>

definition slideLevelFromYaml :: "externals \<Rightarrow> string \<Rightarrow> jsval" where
  "slideLevelFromYaml E str =
     (case slideLevelFromYaml_try E str of Inl e \<Rightarrow> Null | Inr v \<Rightarrow> v)"

section \<open>revealEditorLocation\<close>

definition MAX_SAFE_INTEGER :: int where
  "MAX_SAFE_INTEGER = 9007199254740991"

text \<open>The local variables of the scan.\<close>

record scan =
  items_acc :: "RevealEditorLocationItem list"
  explicitSlideLevel :: jsval
  autoSlideLevel :: int
  pendingAutoSlideLevel :: int
  foundCursor :: bool

definition scan_init :: scan where
  "scan_init = \<lparr>items_acc = [], explicitSlideLevel = Null,
     autoSlideLevel = MAX_SAFE_INTEGER, pendingAutoSlideLevel = 0, foundCursor = False\<rparr>"

text \<open>One iteration of the loop over the tokens; a token without \<open>map\<close> is skipped.\<close>

definition scan_token :: "externals \<Rightarrow> int \<Rightarrow> scan \<Rightarrow> token \<Rightarrow> scan" where
  "scan_token E cursorLine st tok =
     (case tok_map tok of
        None \<Rightarrow> st
      | Some m \<Rightarrow>
          let r = fst m;
              st1 = (if \<not> foundCursor st \<and> cursorLine < r
                     then st\<lparr>foundCursor := True,
                             items_acc := items_acc st @ [cursorItem cursorLine]\<rparr>
                     else st)
          in
            if tok_type tok = ''front_matter'' then
              st1\<lparr>explicitSlideLevel := slideLevelFromYaml E (tok_markup tok),
                  items_acc := items_acc st1 @ [titleItem 0]\<rparr>
            else if tok_type tok = ''hr'' then
              st1\<lparr>items_acc := items_acc st1 @ [hrItem r],
                  pendingAutoSlideLevel := 0\<rparr>
            else if tok_type tok = ''heading_open'' then
              (let l = getHeaderLevel E (tok_markup tok) in
                 st1\<lparr>items_acc := items_acc st1 @ [headingItem r l],
                     pendingAutoSlideLevel := (if l < autoSlideLevel st1 then l else 0)\<rparr>)
            else
              (if pendingAutoSlideLevel st1 > 0
               then st1\<lparr>autoSlideLevel := pendingAutoSlideLevel st1,
                        pendingAutoSlideLevel := 0\<rparr>
               else st1))"

fun scan_tokens :: "externals \<Rightarrow> int \<Rightarrow> scan \<Rightarrow> token list \<Rightarrow> scan" where
  "scan_tokens E cursorLine st [] = st"
| "scan_tokens E cursorLine st (tok # toks) =
     scan_tokens E cursorLine (scan_token E cursorLine st tok) toks"

text \<open>
  After the loop: the pending level is collected, and a level still at its initial value
  becomes 0.
\<close>

definition finalAutoSlideLevel :: "scan \<Rightarrow> int" where
  "finalAutoSlideLevel st =
     (let a = (if pendingAutoSlideLevel st > 0 then pendingAutoSlideLevel st
               else autoSlideLevel st)
      in if a = MAX_SAFE_INTEGER then 0 else a)"

definition revealEditorLocation ::
  "externals \<Rightarrow> int \<Rightarrow> int \<Rightarrow> token list \<Rightarrow> RevealEditorLocation" where
  "revealEditorLocation E cursorLine lineCount tokens =
     (let st = scan_tokens E cursorLine scan_init tokens;
          its = (if \<not> foundCursor st
                 then items_acc st @ [cursorItem (lineCount - 1)]
                 else items_acc st)
      in \<lparr>items = its,
          slideLevel = js_or (explicitSlideLevel st) (Num (finalAutoSlideLevel st))\<rparr>)"

section \<open>revealSlideIndex\<close>

text \<open>
  The loop over the items returns at the cursor item; \<open>None\<close> is the loop running off the
  end of the list, where the function returns its fallback 0.
\<close>

fun slideIndexLoop ::
  "externals \<Rightarrow> jsval \<Rightarrow> int \<Rightarrow> RevealEditorLocationItem list \<Rightarrow> int option" where
  "slideIndexLoop E sl slideIndex [] = None"
| "slideIndexLoop E sl slideIndex (item # rest) =
     (if type item = kCursor then Some (max slideIndex 0)
      else if type item = kTitle \<or> type item = kHr
        then slideIndexLoop E sl (slideIndex + 1) rest
      else if type item = kHeading \<and> js_le E (level item) sl
        then slideIndexLoop E sl (slideIndex + 1) rest
      else slideIndexLoop E sl slideIndex rest)"

definition revealSlideIndex :: "externals \<Rightarrow> int \<Rightarrow> int \<Rightarrow> token list \<Rightarrow> int" where
  "revealSlideIndex E cursorLine lineCount tokens =
     (let location = revealEditorLocation E cursorLine lineCount tokens
      in case slideIndexLoop E (slideLevel location) (- 1) (items location) of
           Some i \<Rightarrow> i
         | None \<Rightarrow> 0)"

section \<open>Notions used to state the properties\<close>

text \<open>A token with a \<open>map\<close> whose first line is strictly after the cursor line.\<close>

definition startsAfter :: "int \<Rightarrow> token \<Rightarrow> bool" where
  "startsAfter cursorLine tok =
     (case tok_map tok of None \<Rightarrow> False | Some m \<Rightarrow> cursorLine < fst m)"

text \<open>The item the scan pushes for a token itself (the cursor item apart).\<close>

definition tokenItems :: "externals \<Rightarrow> token \<Rightarrow> RevealEditorLocationItem list" where
  "tokenItems E tok =
     (case tok_map tok of
        None \<Rightarrow> []
      | Some m \<Rightarrow>
          if tok_type tok = ''front_matter'' then [titleItem 0]
          else if tok_type tok = ''hr'' then [hrItem (fst m)]
          else if tok_type tok = ''heading_open''
            then [headingItem (fst m) (getHeaderLevel E (tok_markup tok))]
          else [])"

definition allTokenItems :: "externals \<Rightarrow> token list \<Rightarrow> RevealEditorLocationItem list" where
  "allTokenItems E toks = concat (map (tokenItems E) toks)"

text \<open>The items at which \<open>revealSlideIndex\<close> increments its counter.\<close>

definition advances :: "externals \<Rightarrow> jsval \<Rightarrow> RevealEditorLocationItem \<Rightarrow> bool" where
  "advances E sl item =
     (type item = kTitle \<or> type item = kHr \<or> (type item = kHeading \<and> js_le E (level item) sl))"

definition slideCount :: "externals \<Rightarrow> jsval \<Rightarrow> RevealEditorLocationItem list \<Rightarrow> int" where
  "slideCount E sl its = int (length (filter (advances E sl) its))"

definition mappedFrontMatter :: "token \<Rightarrow> bool" where
  "mappedFrontMatter tok = (tok_map tok \<noteq> None \<and> tok_type tok = ''front_matter'')"

definition mappedHeading :: "token \<Rightarrow> bool" where
  "mappedHeading tok = (tok_map tok \<noteq> None \<and> tok_type tok = ''heading_open'')"

definition mappedHr :: "token \<Rightarrow> bool" where
  "mappedHr tok = (tok_map tok \<noteq> None \<and> tok_type tok = ''hr'')"


text \<open>The level variables of the scan, the part of its state the resolver reads.\<close>

definition levelsOf :: "scan \<Rightarrow> jsval \<times> int \<times> int" where
  "levelsOf st = (explicitSlideLevel st, autoSlideLevel st, pendingAutoSlideLevel st)"

section \<open>Sample collaborators and inputs\<close>

text \<open>
  Modelled from the spec: \<open>getHeaderLevel\<close> is not part of the module; the spec describes
  a heading's level as the count encoded in the heading marker, so the sample collaborator
  counts the marker's characters.
\<close>

definition markerCount :: "string \<Rightarrow> int" where
  "markerCount m = int (length m)"

text \<open>
  Modelled from the spec: the front-matter decoder is not part of the module; it returns a
  key-value mapping or fails. The sample decoder knows a handful of blocks, returns
  \<open>undefined\<close> for the empty block and fails on every other text.
\<close>

definition sampleDecoder :: "string \<Rightarrow> js_error + jsval" where
  "sampleDecoder s =
     (if s = ''title: Talk'' then Inr (Obj [(''title'', Str ''Talk'')])
      else if s = ''slide-level: 2'' then Inr (Obj [(''slide-level'', Num 2)])
      else if s = ''slide-level: 0'' then Inr (Obj [(''slide-level'', Num 0)])
      else if s = ''format: revealjs'' then Inr (Obj [(''format'', Str ''revealjs'')])
      else if s = ''format: {revealjs: {slide-level: 3}}'' then
        Inr (Obj [(''format'', Obj [(''revealjs'', Obj [(''slide-level'', Num 3)])])])
      else if s = ''slide-level: 2, format: {revealjs: {slide-level: 3}}'' then
        Inr (Obj [(''slide-level'', Num 2),
                  (''format'', Obj [(''revealjs'', Obj [(''slide-level'', Num 3)])])])
      else if s = ''slide-level: 0, format: {revealjs: {slide-level: 3}}'' then
        Inr (Obj [(''slide-level'', Num 0),
                  (''format'', Obj [(''revealjs'', Obj [(''slide-level'', Num 3)])])])
      else if s = [] then Inr Undefined
      else Inl YAMLException)"

definition sampleExternals :: externals where
  "sampleExternals = \<lparr>parseFrontMatterStr = sampleDecoder, getHeaderLevel = markerCount,
     stringToNumber = (\<lambda>s. None)\<rparr>"

text \<open>A token of the given type and markup that occupies the single line \<open>r\<close>.\<close>

definition lineToken :: "string \<Rightarrow> int \<Rightarrow> string \<Rightarrow> token" where
  "lineToken ty r m = \<lparr>tok_type = ty, tok_map = Some (r, r + 1), tok_markup = m\<rparr>"

text \<open>
  Sample token streams, shaped as markdown-it emits them: an opening token and an inline
  token carry the source lines, a closing token carries none.
\<close>

definition unmappedToken :: "string \<Rightarrow> token" where
  "unmappedToken ty = \<lparr>tok_type = ty, tok_map = None, tok_markup = []\<rparr>"

definition sampleDoc :: "token list" where
  "sampleDoc =
     [lineToken ''front_matter'' 0 ''title: Talk'',
      lineToken ''heading_open'' 2 ''#'', lineToken ''inline'' 2 [], unmappedToken ''heading_close'',
      lineToken ''heading_open'' 5 ''##'', lineToken ''inline'' 5 [], unmappedToken ''heading_close'',
      lineToken ''paragraph_open'' 6 [], lineToken ''inline'' 6 [], unmappedToken ''paragraph_close'',
      lineToken ''hr'' 9 ''---'']"

definition plainDoc :: "token list" where
  "plainDoc =
     [lineToken ''front_matter'' 0 ''title: Talk'',
      lineToken ''paragraph_open'' 2 [], lineToken ''inline'' 2 [], unmappedToken ''paragraph_close'']"


definition zeroLevelDoc :: "token list" where
  "zeroLevelDoc =
     [lineToken ''front_matter'' 0 ''slide-level: 0'',
      lineToken ''heading_open'' 2 ''#'', lineToken ''inline'' 2 [], unmappedToken ''heading_close'']"

definition explicitDoc :: "token list" where
  "explicitDoc =
     [lineToken ''front_matter'' 0 ''slide-level: 2'',
      lineToken ''heading_open'' 2 ''#'', lineToken ''inline'' 2 [], unmappedToken ''heading_close'']"


definition nestedZeroDoc :: "token list" where
  "nestedZeroDoc =
     [lineToken ''front_matter'' 0 ''slide-level: 0, format: {revealjs: {slide-level: 3}}'',
      lineToken ''heading_open'' 2 ''#'', lineToken ''inline'' 2 [], unmappedToken ''heading_close'']"

text \<open>
  A stream that ends on a heading right after committed content: the level 2 is the
  running minimum and the level 1 is pending.
\<close>

definition candidateDoc :: "token list" where
  "candidateDoc =
     [lineToken ''heading_open'' 0 ''##'', lineToken ''paragraph_open'' 1 [],
      lineToken ''heading_open'' 3 ''#'']"

section \<open>Lemmas about the scan\<close>

lemmas item_defs = titleItem_def cursorItem_def hrItem_def headingItem_def simpleItem_def
lemmas yaml_defs = slideLevelFromYaml_def slideLevelFromYaml_try_def kSlideLevel_def js_or_def
lemmas sample_defs = sampleExternals_def sampleDecoder_def markerCount_def lineToken_def
lemmas doc_defs = sampleDoc_def plainDoc_def unmappedToken_def
lemmas run_defs = revealSlideIndex_def revealEditorLocation_def scan_token_def scan_init_def
  finalAutoSlideLevel_def MAX_SAFE_INTEGER_def js_le_def Let_def

lemma scan_tokens_append:
  "scan_tokens E c st (xs @ ys) = scan_tokens E c (scan_tokens E c st xs) ys"
  by (induction xs arbitrary: st) simp_all

text \<open>The three level variables evolve independently of the cursor and of the items.\<close>

lemma levelsOf_scan_token:
  "levelsOf st = levelsOf st' \<Longrightarrow>
   levelsOf (scan_token E c st tok) = levelsOf (scan_token E c' st' tok)"
  by (auto simp: levelsOf_def scan_token_def Let_def split: option.splits)

lemma levelsOf_scan_tokens:
  "levelsOf st = levelsOf st' \<Longrightarrow>
   levelsOf (scan_tokens E c st toks) = levelsOf (scan_tokens E c' st' toks)"
proof (induction toks arbitrary: st st')
  case Nil
  then show ?case by simp
next
  case (Cons tok toks)
  show ?case
    using Cons.IH [OF levelsOf_scan_token [OF Cons.prems]] by simp
qed

lemma slideLevel_cursor_independent:
  "slideLevel (revealEditorLocation E c n toks) = slideLevel (revealEditorLocation E c' n' toks)"
proof -
  have "levelsOf (scan_tokens E c scan_init toks) = levelsOf (scan_tokens E c' scan_init toks)"
    by (rule levelsOf_scan_tokens) simp
  then show ?thesis
    by (simp add: revealEditorLocation_def Let_def levelsOf_def finalAutoSlideLevel_def)
qed

text \<open>The items: the tokens' own items, with the cursor item before the first token that
  starts after the cursor line.\<close>

lemma scan_token_found:
  "foundCursor st \<Longrightarrow>
   foundCursor (scan_token E c st tok) \<and>
   items_acc (scan_token E c st tok) = items_acc st @ tokenItems E tok"
  by (auto simp: scan_token_def tokenItems_def Let_def split: option.splits)

lemma scan_tokens_found:
  "foundCursor st \<Longrightarrow>
   foundCursor (scan_tokens E c st toks) \<and>
   items_acc (scan_tokens E c st toks) = items_acc st @ allTokenItems E toks"
proof (induction toks arbitrary: st)
  case Nil
  then show ?case by (simp add: allTokenItems_def)
next
  case (Cons tok toks)
  from scan_token_found [OF Cons.prems, of E c tok] Cons.IH [of "scan_token E c st tok"]
  show ?case by (simp add: allTokenItems_def)
qed

lemma scan_token_before:
  "\<not> foundCursor st \<Longrightarrow> \<not> startsAfter c tok \<Longrightarrow>
   \<not> foundCursor (scan_token E c st tok) \<and>
   items_acc (scan_token E c st tok) = items_acc st @ tokenItems E tok"
  by (auto simp: scan_token_def tokenItems_def startsAfter_def Let_def split: option.splits)

lemma scan_token_at:
  "\<not> foundCursor st \<Longrightarrow> startsAfter c tok \<Longrightarrow>
   foundCursor (scan_token E c st tok) \<and>
   items_acc (scan_token E c st tok) = items_acc st @ cursorItem c # tokenItems E tok"
  by (auto simp: scan_token_def tokenItems_def startsAfter_def Let_def split: option.splits)

lemma scan_tokens_items:
  "\<not> foundCursor st \<Longrightarrow>
   (if \<exists>t \<in> set toks. startsAfter c t
    then foundCursor (scan_tokens E c st toks) \<and>
         items_acc (scan_tokens E c st toks) =
           items_acc st @ allTokenItems E (takeWhile (\<lambda>t. \<not> startsAfter c t) toks)
             @ cursorItem c # allTokenItems E (dropWhile (\<lambda>t. \<not> startsAfter c t) toks)
    else \<not> foundCursor (scan_tokens E c st toks) \<and>
         items_acc (scan_tokens E c st toks) = items_acc st @ allTokenItems E toks)"
proof (induction toks arbitrary: st)
  case Nil
  then show ?case by (simp add: allTokenItems_def)
next
  case (Cons tok toks)
  show ?case
  proof (cases "startsAfter c tok")
    case True
    from scan_token_at [OF Cons.prems True, of E]
      scan_tokens_found [of "scan_token E c st tok" E c toks]
    show ?thesis using True by (simp add: allTokenItems_def)
  next
    case False
    from scan_token_before [OF Cons.prems False, of E]
      Cons.IH [of "scan_token E c st tok"]
    show ?thesis using False by (simp add: allTokenItems_def)
  qed
qed

lemma tokenItems_no_cursor: "i \<in> set (tokenItems E tok) \<Longrightarrow> type i \<noteq> kCursor"
  by (auto simp: tokenItems_def item_defs split: option.splits if_splits)

lemma allTokenItems_no_cursor: "i \<in> set (allTokenItems E toks) \<Longrightarrow> type i \<noteq> kCursor"
  by (auto simp: allTokenItems_def dest: tokenItems_no_cursor)

lemma allTokenItems_append:
  "allTokenItems E (xs @ ys) = allTokenItems E xs @ allTokenItems E ys"
  by (simp add: allTokenItems_def)

text \<open>The item list and the slide index in closed form.\<close>

lemma items_closed_form:
  "items (revealEditorLocation E c n toks) =
     allTokenItems E (takeWhile (\<lambda>t. \<not> startsAfter c t) toks)
       @ cursorItem (if \<exists>t \<in> set toks. startsAfter c t then c else n - 1)
       # allTokenItems E (dropWhile (\<lambda>t. \<not> startsAfter c t) toks)"
proof -
  have nf: "\<not> foundCursor scan_init" by (simp add: scan_init_def)
  have e: "items_acc scan_init = []" by (simp add: scan_init_def)
  show ?thesis
  proof (cases "\<exists>t \<in> set toks. startsAfter c t")
    case True
    with scan_tokens_items [OF nf, of toks c E] e show ?thesis
      by (simp add: revealEditorLocation_def Let_def)
  next
    case False
    then have tw: "takeWhile (\<lambda>t. \<not> startsAfter c t) toks = toks"
      and dw: "dropWhile (\<lambda>t. \<not> startsAfter c t) toks = []"
      by (simp_all add: takeWhile_eq_all_conv)
    from scan_tokens_items [OF nf, of toks c E] e False show ?thesis
      by (simp add: revealEditorLocation_def Let_def tw dw allTokenItems_def)
  qed
qed

lemma slideIndexLoop_cursor:
  "\<forall>i \<in> set xs. type i \<noteq> kCursor \<Longrightarrow>
   slideIndexLoop E sl k (xs @ cursorItem r # ys) = Some (max (k + slideCount E sl xs) 0)"
proof (induction xs arbitrary: k)
  case Nil
  then show ?case by (simp add: slideCount_def item_defs)
next
  case (Cons x xs)
  then have IH: "\<And>k. slideIndexLoop E sl k (xs @ cursorItem r # ys) = Some (max (k + slideCount E sl xs) 0)"
    by simp
  from Cons.prems have nc: "type x \<noteq> kCursor" by simp
  show ?case
    using nc by (auto simp: IH slideCount_def advances_def)
qed

lemma revealSlideIndex_closed_form:
  "revealSlideIndex E c n toks =
     max (slideCount E (slideLevel (revealEditorLocation E c n toks))
            (allTokenItems E (takeWhile (\<lambda>t. \<not> startsAfter c t) toks)) - 1) 0"
proof -
  have "\<forall>i \<in> set (allTokenItems E (takeWhile (\<lambda>t. \<not> startsAfter c t) toks)). type i \<noteq> kCursor"
    by (blast dest: allTokenItems_no_cursor)
  from slideIndexLoop_cursor [OF this]
  show ?thesis
    by (simp add: revealSlideIndex_def Let_def items_closed_form)
qed

text \<open>Counting and prefixes.\<close>

lemma takeWhile_weaker_prefix:
  "(\<And>x. P x \<Longrightarrow> Q x) \<Longrightarrow> \<exists>zs. takeWhile Q xs = takeWhile P xs @ zs"
  by (induction xs) auto

lemma slideCount_append:
  "slideCount E sl (xs @ ys) = slideCount E sl xs + slideCount E sl ys"
  by (simp add: slideCount_def)

lemma slideCount_nonneg: "0 \<le> slideCount E sl xs"
  by (simp add: slideCount_def)

lemma startsAfter_mono: "c1 \<le> c2 \<Longrightarrow> startsAfter c2 t \<Longrightarrow> startsAfter c1 t"
  by (auto simp: startsAfter_def split: option.splits)

lemma slideCount_tokenItems_plain:
  assumes "tok_type t \<noteq> ''heading_open''" and "tok_type t \<noteq> ''hr''"
  shows "slideCount E sl (tokenItems E t) = (if mappedFrontMatter t then 1 else 0)"
  using assms
  by (auto simp: slideCount_def tokenItems_def mappedFrontMatter_def advances_def item_defs
      split: option.splits)

lemma slideCount_plain:
  assumes "\<forall>t \<in> set xs. tok_type t \<noteq> ''heading_open'' \<and> tok_type t \<noteq> ''hr''"
  shows "slideCount E sl (allTokenItems E xs) = int (length (filter mappedFrontMatter xs))"
  using assms
proof (induction xs)
  case Nil
  then show ?case by (simp add: allTokenItems_def slideCount_def)
next
  case (Cons t xs)
  then have "slideCount E sl (tokenItems E t) = (if mappedFrontMatter t then 1 else 0)"
    by (simp add: slideCount_tokenItems_plain)
  moreover have "allTokenItems E (t # xs) = tokenItems E t @ allTokenItems E xs"
    by (simp add: allTokenItems_def)
  ultimately show ?case using Cons by (simp add: slideCount_append)
qed

lemma filter_takeWhile_le:
  "length (filter P (takeWhile Q xs)) \<le> length (filter P xs)"
  by (induction xs) auto

lemma takeWhile_through:
  assumes "\<forall>t \<in> set pre. P t" and "P h"
  shows "takeWhile P (pre @ h # post) = pre @ h # takeWhile P post"
    and "dropWhile P (pre @ h # post) = dropWhile P post"
  using assms by (simp_all add: takeWhile_append2 dropWhile_append2)

text \<open>The explicit level, the inferred level and the front-matter lookup.\<close>

lemma explicit_scan_token_other:
  "\<not> mappedFrontMatter tok \<Longrightarrow>
   explicitSlideLevel (scan_token E c st tok) = explicitSlideLevel st"
  by (auto simp: scan_token_def mappedFrontMatter_def Let_def split: option.splits)

lemma explicit_scan_token_front:
  "mappedFrontMatter tok \<Longrightarrow>
   explicitSlideLevel (scan_token E c st tok) = slideLevelFromYaml E (tok_markup tok)"
  by (auto simp: scan_token_def mappedFrontMatter_def Let_def split: option.splits)

lemma explicit_scan_tokens_other:
  "\<forall>t \<in> set toks. \<not> mappedFrontMatter t \<Longrightarrow>
   explicitSlideLevel (scan_tokens E c st toks) = explicitSlideLevel st"
  by (induction toks arbitrary: st) (simp_all add: explicit_scan_token_other)

lemma explicit_last_front_matter:
  assumes "mappedFrontMatter fm" and "\<forall>t \<in> set post. \<not> mappedFrontMatter t"
  shows "explicitSlideLevel (scan_tokens E c st (pre @ fm # post)) =
           slideLevelFromYaml E (tok_markup fm)"
  using assms
  by (simp add: scan_tokens_append explicit_scan_tokens_other explicit_scan_token_front)


lemma slideLevelFromYaml_top:
  assumes "parseFrontMatterStr E str = Inr (Obj kvs)"
    and "map_of kvs ''slide-level'' = Some v" and "truthy v"
  shows "slideLevelFromYaml E str = v"
  using assms by (simp add: yaml_defs)

lemma slideLevelFromYaml_nested:
  assumes "parseFrontMatterStr E str = Inr (Obj kvs)"
    and "map_of kvs ''slide-level'' = None \<or> map_of kvs ''slide-level'' = Some (Num 0)"
  shows "slideLevelFromYaml E str =
     js_or (optProp (optProp (optProp (Obj kvs) ''format'') ''revealjs'') ''slide-level'') Null"
  using assms by (auto simp: yaml_defs split: option.splits)

lemma slideLevelFromYaml_try_total:
  assumes "parseFrontMatterStr E str = Inr meta"
  shows "slideLevelFromYaml_try E str = Inr (slideLevelFromYaml E str)"
  using assms by (cases meta) (auto simp: yaml_defs split: option.splits sum.splits)

text \<open>
  What the lookup and the resolver do for a non-zero explicit level, and for a missing
  \<open>format\<close> or \<open>revealjs\<close> mapping.
\<close>

lemma explicit_nonzero_level_wins:
  assumes "mappedFrontMatter fm" and "\<forall>t \<in> set post. \<not> mappedFrontMatter t"
    and "parseFrontMatterStr E (tok_markup fm) = Inr (Obj kvs)"
    and "map_of kvs ''slide-level'' = Some (Num l)
         \<or> (map_of kvs ''slide-level'' = None \<and> map_of kvs ''format'' = Some (Obj f)
            \<and> map_of f ''revealjs'' = Some (Obj rv) \<and> map_of rv ''slide-level'' = Some (Num l))"
    and "l \<noteq> 0"
  shows "slideLevel (revealEditorLocation E c n (pre @ fm # post)) = Num l"
proof -
  have "slideLevelFromYaml E (tok_markup fm) = Num l"
    using assms(4)
  proof
    assume "map_of kvs ''slide-level'' = Some (Num l)"
    with assms(3,5) show ?thesis by (simp add: slideLevelFromYaml_top)
  next
    assume n: "map_of kvs ''slide-level'' = None \<and> map_of kvs ''format'' = Some (Obj f)
            \<and> map_of f ''revealjs'' = Some (Obj rv) \<and> map_of rv ''slide-level'' = Some (Num l)"
    then have "slideLevelFromYaml E (tok_markup fm) =
       js_or (optProp (optProp (optProp (Obj kvs) ''format'') ''revealjs'') ''slide-level'') Null"
      using assms(3) by (simp add: slideLevelFromYaml_nested)
    with n assms(5) show ?thesis by (simp add: js_or_def)
  qed
  then have "explicitSlideLevel (scan_tokens E c scan_init (pre @ fm # post)) = Num l"
    using explicit_last_front_matter [OF assms(1,2)] by simp
  with assms(5) show ?thesis
    by (simp add: revealEditorLocation_def Let_def js_or_def)
qed

lemma slideLevelFromYaml_lookup:
  assumes "parseFrontMatterStr E str = Inr (Obj kvs)"
  shows "(map_of kvs ''slide-level'' = Some (Num a) \<and> a \<noteq> 0 \<longrightarrow> slideLevelFromYaml E str = Num a)
     \<and> ((map_of kvs ''slide-level'' = None \<or> map_of kvs ''slide-level'' = Some (Num 0))
          \<and> map_of kvs ''format'' = Some (Obj f) \<and> map_of f ''revealjs'' = Some (Obj rv)
          \<and> map_of rv ''slide-level'' = Some (Num b) \<and> b \<noteq> 0
        \<longrightarrow> slideLevelFromYaml E str = Num b)
     \<and> ((map_of kvs ''slide-level'' = None \<or> map_of kvs ''slide-level'' = Some (Num 0))
          \<and> (map_of kvs ''format'' = None
              \<or> (map_of kvs ''format'' = Some (Obj f) \<and> map_of f ''revealjs'' = None))
        \<longrightarrow> slideLevelFromYaml E str = Null)
     \<and> slideLevelFromYaml_try E str = Inr (slideLevelFromYaml E str)"
proof -
  have 1: "map_of kvs ''slide-level'' = Some (Num a) \<and> a \<noteq> 0 \<longrightarrow> slideLevelFromYaml E str = Num a"
    using slideLevelFromYaml_top [OF assms, of "Num a"] by simp
  have 2: "(map_of kvs ''slide-level'' = None \<or> map_of kvs ''slide-level'' = Some (Num 0))
          \<and> map_of kvs ''format'' = Some (Obj f) \<and> map_of f ''revealjs'' = Some (Obj rv)
          \<and> map_of rv ''slide-level'' = Some (Num b) \<and> b \<noteq> 0
        \<longrightarrow> slideLevelFromYaml E str = Num b"
    using slideLevelFromYaml_nested [OF assms] by (auto simp: js_or_def)
  have 3: "(map_of kvs ''slide-level'' = None \<or> map_of kvs ''slide-level'' = Some (Num 0))
          \<and> (map_of kvs ''format'' = None
              \<or> (map_of kvs ''format'' = Some (Obj f) \<and> map_of f ''revealjs'' = None))
        \<longrightarrow> slideLevelFromYaml E str = Null"
    using slideLevelFromYaml_nested [OF assms] by (auto simp: js_or_def)
  from 1 2 3 slideLevelFromYaml_try_total [OF assms] show ?thesis by blast
qed

text \<open>A horizontal rule before a shallower heading leaves that heading pending as well.\<close>

lemma pending_after_hr:
  assumes "mappedHr sep" and "mappedHeading tok'"
    and "getHeaderLevel E (tok_markup tok') < autoSlideLevel st"
  shows "pendingAutoSlideLevel (scan_token E c (scan_token E c st sep) tok')
           = getHeaderLevel E (tok_markup tok')"
  using assms
  by (auto simp: scan_token_def mappedHeading_def mappedHr_def Let_def split: option.splits)








section \<open>The properties\<close>

text \<open>
  C1 (as the code behaves). The scenario's stream is front matter at row 0 without a slide
  level, a level-1 heading at row 2, a level-2 heading at row 5 and a horizontal rule at
  row 9, with the cursor at line 6. Each heading only becomes pending, the second replaces
  the first, and the horizontal rule clears the pending level before anything commits it:
  the resolved slide level is 0, only the title counts before the cursor, and the ordinal
  is 0.
\<close>

theorem C1_scenario_level_and_ordinal:
  assumes "parseFrontMatterStr E fm = Inr (Obj kvs)"
    and "map_of kvs ''slide-level'' = None" and "map_of kvs ''format'' = None"
    and "getHeaderLevel E m1 = 1" and "getHeaderLevel E m2 = 2"
  shows "slideLevel (revealEditorLocation E 6 n
           [lineToken ''front_matter'' 0 fm, lineToken ''heading_open'' 2 m1,
            lineToken ''heading_open'' 5 m2, lineToken ''hr'' 9 m3]) = Num 0
       \<and> revealSlideIndex E 6 n
           [lineToken ''front_matter'' 0 fm, lineToken ''heading_open'' 2 m1,
            lineToken ''heading_open'' 5 m2, lineToken ''hr'' 9 m3] = 0"
  using assms
  by (simp add: run_defs yaml_defs item_defs lineToken_def)

theorem C1_scenario_witness:
  "slideLevel (revealEditorLocation sampleExternals 6 12
           [lineToken ''front_matter'' 0 ''title: Talk'', lineToken ''heading_open'' 2 ''#'',
            lineToken ''heading_open'' 5 ''##'', lineToken ''hr'' 9 ''---'']) = Num 0
       \<and> revealSlideIndex sampleExternals 6 12
           [lineToken ''front_matter'' 0 ''title: Talk'', lineToken ''heading_open'' 2 ''#'',
            lineToken ''heading_open'' 5 ''##'', lineToken ''hr'' 9 ''---''] = 0"
  using C1_scenario_level_and_ordinal [of sampleExternals "''title: Talk''"
      "[(''title'', Str ''Talk'')]" "''#''" "''##''" 12 "''---''"]
  by (simp add: sampleExternals_def sampleDecoder_def markerCount_def)

text \<open>
  C1 as the spec states it (slide level 2 and ordinal 2) does not hold on that stream.
\<close>

theorem C1_scenario_counterexample:
  "\<not> (slideLevel (revealEditorLocation sampleExternals 6 12
           [lineToken ''front_matter'' 0 ''title: Talk'', lineToken ''heading_open'' 2 ''#'',
            lineToken ''heading_open'' 5 ''##'', lineToken ''hr'' 9 ''---'']) = Num 2
       \<and> revealSlideIndex sampleExternals 6 12
           [lineToken ''front_matter'' 0 ''title: Talk'', lineToken ''heading_open'' 2 ''#'',
            lineToken ''heading_open'' 5 ''##'', lineToken ''hr'' 9 ''---''] = 2)"
  by (simp add: run_defs yaml_defs item_defs sample_defs)

text \<open>
  C2 (as the code behaves). When a heading token's level is equal to or deeper than the
  running minimum \<open>autoSlideLevel\<close>, the pending candidate is discarded, not committed: the
  pending level becomes 0 and the accepted level and the explicit level are unchanged. A
  following heading that is strictly shallower than the running minimum becomes the pending
  candidate again, with no horizontal rule in between.
\<close>

theorem C2_deeper_heading_discards_pending:
  assumes "tok_map tok = Some m" and "tok_type tok = ''heading_open''"
    and "autoSlideLevel st \<le> getHeaderLevel E (tok_markup tok)"
  shows "autoSlideLevel (scan_token E c st tok) = autoSlideLevel st
     \<and> pendingAutoSlideLevel (scan_token E c st tok) = 0
     \<and> explicitSlideLevel (scan_token E c st tok) = explicitSlideLevel st
     \<and> (\<forall>tok'. mappedHeading tok' \<and> getHeaderLevel E (tok_markup tok') < autoSlideLevel st
          \<longrightarrow> pendingAutoSlideLevel (scan_token E c (scan_token E c st tok) tok')
              = getHeaderLevel E (tok_markup tok'))"
  using assms
  by (auto simp: scan_token_def mappedHeading_def Let_def split: option.splits)

theorem C2_witness:
  "pendingAutoSlideLevel (scan_tokens sampleExternals 0 scan_init candidateDoc) = 1
   \<and> autoSlideLevel (scan_tokens sampleExternals 0 scan_init candidateDoc) = 2
   \<and> autoSlideLevel (scan_token sampleExternals 0
        (scan_tokens sampleExternals 0 scan_init candidateDoc)
        (lineToken ''heading_open'' 4 ''##'')) = 2
   \<and> pendingAutoSlideLevel (scan_token sampleExternals 0
        (scan_tokens sampleExternals 0 scan_init candidateDoc)
        (lineToken ''heading_open'' 4 ''##'')) = 0
   \<and> pendingAutoSlideLevel (scan_token sampleExternals 0
        (scan_token sampleExternals 0
          (scan_tokens sampleExternals 0 scan_init candidateDoc)
          (lineToken ''heading_open'' 4 ''##''))
        (lineToken ''heading_open'' 5 ''#'')) = 1"
proof -
  let ?st = "scan_tokens sampleExternals 0 scan_init candidateDoc"
  let ?tok = "lineToken ''heading_open'' 4 ''##''"
  let ?tok' = "lineToken ''heading_open'' 5 ''#''"
  have pa: "pendingAutoSlideLevel ?st = 1" and au: "autoSlideLevel ?st = 2"
    by (simp_all add: candidateDoc_def run_defs item_defs sample_defs)
  have m: "tok_map ?tok = Some (4, 5)" and ty: "tok_type ?tok = ''heading_open''"
    by (simp_all add: lineToken_def)
  have le: "autoSlideLevel ?st \<le> getHeaderLevel sampleExternals (tok_markup ?tok)"
    unfolding au by (simp add: sample_defs)
  have h': "mappedHeading ?tok' \<and> getHeaderLevel sampleExternals (tok_markup ?tok') < autoSlideLevel ?st"
    unfolding au by (simp add: sample_defs mappedHeading_def)
  have g: "getHeaderLevel sampleExternals (tok_markup ?tok') = 1"
    by (simp add: sample_defs)
  from C2_deeper_heading_discards_pending [where c = 0, OF m ty le] h' pa au g
  show ?thesis by simp
qed

text \<open>
  C2 as the spec states it fails: after a level-2 heading followed by content and a level-1
  heading, the level 1 is pending and the running minimum is 2; a further level-2 heading
  does not commit the pending 1 (the resolved level stays 2), and a level-1 heading after
  it is resolved as the level without any horizontal rule.
\<close>

theorem C2_counterexample:
  "pendingAutoSlideLevel (scan_tokens sampleExternals 0 scan_init candidateDoc) = 1
   \<and> autoSlideLevel (scan_tokens sampleExternals 0 scan_init candidateDoc)
       \<le> getHeaderLevel sampleExternals ''##''
   \<and> autoSlideLevel (scan_token sampleExternals 0
        (scan_tokens sampleExternals 0 scan_init candidateDoc)
        (lineToken ''heading_open'' 4 ''##'')) \<noteq> 1
   \<and> slideLevel (revealEditorLocation sampleExternals 0 6
        (candidateDoc @ [lineToken ''heading_open'' 4 ''##''])) \<noteq> Num 1
   \<and> slideLevel (revealEditorLocation sampleExternals 0 6
        (candidateDoc @ [lineToken ''heading_open'' 4 ''##'',
                         lineToken ''heading_open'' 5 ''#''])) = Num 1"
  by (simp add: candidateDoc_def run_defs yaml_defs item_defs sample_defs)

text \<open>
  C3. A front matter that gives \<open>slide-level: 0\<close> declares the integer 0, which should then
  be the resolved level. The code loses it: \<open>slideLevelFromYaml\<close> returns \<open>null\<close> for it,
  the resolver falls back to the level inferred from the headings (1 here), and the ordinal
  at the end of the document is 1, where the same items counted under level 0 give 0.
\<close>

theorem C3_zero_level_falls_back_to_inferred:
  "parseFrontMatterStr sampleExternals ''slide-level: 0'' = Inr (Obj [(''slide-level'', Num 0)])
   \<and> slideLevelFromYaml sampleExternals ''slide-level: 0'' = Null
   \<and> slideLevel (revealEditorLocation sampleExternals 3 4 zeroLevelDoc) = Num 1
   \<and> revealSlideIndex sampleExternals 3 4 zeroLevelDoc = 1
   \<and> slideIndexLoop sampleExternals (Num 0) (- 1)
        (items (revealEditorLocation sampleExternals 3 4 zeroLevelDoc)) = Some 0"
  by (simp add: zeroLevelDoc_def run_defs yaml_defs item_defs sample_defs unmappedToken_def)

text \<open>
  C4. For a fixed token stream (and document length) the ordinal returned by
  \<open>revealSlideIndex\<close> is monotonically non-decreasing in the cursor line.
\<close>

theorem C4_ordinal_monotone:
  assumes "c1 \<le> c2"
  shows "revealSlideIndex E c1 n toks \<le> revealSlideIndex E c2 n toks"
proof -
  let ?sl = "slideLevel (revealEditorLocation E c1 n toks)"
  have sl: "slideLevel (revealEditorLocation E c2 n toks) = ?sl"
    by (rule slideLevel_cursor_independent)
  have "\<And>t. \<not> startsAfter c1 t \<Longrightarrow> \<not> startsAfter c2 t"
    using startsAfter_mono [OF assms] by blast
  from takeWhile_weaker_prefix [of "\<lambda>t. \<not> startsAfter c1 t" "\<lambda>t. \<not> startsAfter c2 t", OF this]
  obtain zs where zs: "takeWhile (\<lambda>t. \<not> startsAfter c2 t) toks
      = takeWhile (\<lambda>t. \<not> startsAfter c1 t) toks @ zs"
    by blast
  have "slideCount E ?sl (allTokenItems E (takeWhile (\<lambda>t. \<not> startsAfter c1 t) toks))
      \<le> slideCount E ?sl (allTokenItems E (takeWhile (\<lambda>t. \<not> startsAfter c2 t) toks))"
    using slideCount_nonneg [of E ?sl "allTokenItems E zs"]
    by (simp add: zs allTokenItems_append slideCount_append)
  then show ?thesis
    by (simp add: revealSlideIndex_closed_form sl)
qed

theorem C4_witness:
  "(1::int) \<le> 6
   \<and> revealSlideIndex sampleExternals 1 12 sampleDoc
       \<le> revealSlideIndex sampleExternals 6 12 sampleDoc
   \<and> revealSlideIndex sampleExternals 1 12 sampleDoc = 0
   \<and> revealSlideIndex sampleExternals 6 12 sampleDoc = 1"
proof -
  have a: "revealSlideIndex sampleExternals 1 12 sampleDoc = 0"
    by (simp add: run_defs yaml_defs item_defs sample_defs doc_defs)
  have b: "revealSlideIndex sampleExternals 6 12 sampleDoc = 1"
    by (simp add: run_defs yaml_defs item_defs sample_defs doc_defs)
  have "(1::int) \<le> 6" by simp
  from C4_ordinal_monotone [OF this, of sampleExternals 12 sampleDoc] a b
  show ?thesis by simp
qed

text \<open>
  C5. With \<open>slide-level: 0\<close> at the top level and \<open>format.revealjs.slide-level: 3\<close>, the
  top-level value should be the one used. The code returns the nested 3 instead, from the
  lookup and from the resolver; with a top-level 2 it returns the top-level value.
\<close>

theorem C5_zero_top_level_yields_nested:
  "parseFrontMatterStr sampleExternals ''slide-level: 0, format: {revealjs: {slide-level: 3}}''
     = Inr (Obj [(''slide-level'', Num 0),
                 (''format'', Obj [(''revealjs'', Obj [(''slide-level'', Num 3)])])])
   \<and> slideLevelFromYaml sampleExternals ''slide-level: 0, format: {revealjs: {slide-level: 3}}''
       = Num 3
   \<and> slideLevelFromYaml sampleExternals ''slide-level: 2, format: {revealjs: {slide-level: 3}}''
       = Num 2
   \<and> slideLevel (revealEditorLocation sampleExternals 3 4 nestedZeroDoc) = Num 3"
  by (simp add: nestedZeroDoc_def run_defs yaml_defs item_defs sample_defs unmappedToken_def)



text \<open>
  C7. Let the cursor be exactly at the start line \<open>r\<close> of a heading token \<open>h\<close> whose level
  is at most the slide level that \<open>revealEditorLocation\<close> itself resolves, in a stream in
  source order (no token before \<open>h\<close> starts after line \<open>r\<close>). Then the cursor item is placed
  after the heading's item, right before the first later token that starts strictly after
  \<open>r\<close> (or at the end), and the ordinal counts the heading: it is the number of counted
  items before the heading, plus one for the heading, plus the counted items of the later
  tokens that do not start after \<open>r\<close>, minus one.
\<close>

theorem C7_cursor_at_heading_counts_it:
  assumes "tok_map h = Some (r, e)" and "tok_type h = ''heading_open''"
    and "js_le E (getHeaderLevel E (tok_markup h))
           (slideLevel (revealEditorLocation E r n (pre @ h # post)))"
    and "\<forall>t \<in> set pre. \<not> startsAfter r t"
  shows "items (revealEditorLocation E r n (pre @ h # post)) =
           allTokenItems E pre @ headingItem r (getHeaderLevel E (tok_markup h))
             # allTokenItems E (takeWhile (\<lambda>t. \<not> startsAfter r t) post)
             @ cursorItem (if \<exists>t \<in> set post. startsAfter r t then r else n - 1)
             # allTokenItems E (dropWhile (\<lambda>t. \<not> startsAfter r t) post)
       \<and> revealSlideIndex E r n (pre @ h # post) =
           slideCount E (slideLevel (revealEditorLocation E r n (pre @ h # post)))
             (allTokenItems E pre) + 1
           + slideCount E (slideLevel (revealEditorLocation E r n (pre @ h # post)))
               (allTokenItems E (takeWhile (\<lambda>t. \<not> startsAfter r t) post)) - 1"
proof -
  let ?sl = "slideLevel (revealEditorLocation E r n (pre @ h # post))"
  let ?l = "getHeaderLevel E (tok_markup h)"
  have h: "\<not> startsAfter r h" using assms(1) by (simp add: startsAfter_def)
  have hi: "tokenItems E h = [headingItem r ?l]"
    using assms(1,2) by (simp add: tokenItems_def)
  have tw: "takeWhile (\<lambda>t. \<not> startsAfter r t) (pre @ h # post)
      = pre @ h # takeWhile (\<lambda>t. \<not> startsAfter r t) post"
    and dw: "dropWhile (\<lambda>t. \<not> startsAfter r t) (pre @ h # post)
      = dropWhile (\<lambda>t. \<not> startsAfter r t) post"
    using takeWhile_through [of pre "\<lambda>t. \<not> startsAfter r t" h post] assms(4) h by simp_all
  have ex: "(\<exists>t \<in> set (pre @ h # post). startsAfter r t) = (\<exists>t \<in> set post. startsAfter r t)"
    using assms(4) h by auto
  have all: "\<And>xs. allTokenItems E (pre @ h # xs)
      = allTokenItems E pre @ headingItem r ?l # allTokenItems E xs"
    by (simp add: allTokenItems_def hi)
  have cnt: "slideCount E ?sl [headingItem r ?l] = 1"
    using assms(3) by (simp add: slideCount_def advances_def headingItem_def)
  have its: "items (revealEditorLocation E r n (pre @ h # post)) =
           allTokenItems E pre @ headingItem r ?l
             # allTokenItems E (takeWhile (\<lambda>t. \<not> startsAfter r t) post)
             @ cursorItem (if \<exists>t \<in> set post. startsAfter r t then r else n - 1)
             # allTokenItems E (dropWhile (\<lambda>t. \<not> startsAfter r t) post)"
    unfolding items_closed_form tw dw ex all by simp
  have "slideCount E ?sl (allTokenItems E (pre @ h # takeWhile (\<lambda>t. \<not> startsAfter r t) post))
      = slideCount E ?sl (allTokenItems E pre) + 1
        + slideCount E ?sl (allTokenItems E (takeWhile (\<lambda>t. \<not> startsAfter r t) post))"
    using cnt slideCount_append [of E ?sl "[headingItem r ?l]"]
    by (simp add: all slideCount_append)
  then have idx: "revealSlideIndex E r n (pre @ h # post) =
           slideCount E ?sl (allTokenItems E pre) + 1
           + slideCount E ?sl (allTokenItems E (takeWhile (\<lambda>t. \<not> startsAfter r t) post)) - 1"
    using slideCount_nonneg [of E ?sl "allTokenItems E pre"]
      slideCount_nonneg [of E ?sl "allTokenItems E (takeWhile (\<lambda>t. \<not> startsAfter r t) post)"]
    unfolding revealSlideIndex_closed_form tw by simp
  from its idx show ?thesis by blast
qed

theorem C7_witness:
  "js_le sampleExternals (getHeaderLevel sampleExternals ''#'')
     (slideLevel (revealEditorLocation sampleExternals 2 12 sampleDoc))
   \<and> revealSlideIndex sampleExternals 2 12 sampleDoc = 1"
proof -
  let ?h = "lineToken ''heading_open'' 2 ''#''"
  let ?pre = "[lineToken ''front_matter'' 0 ''title: Talk'']"
  let ?post = "[lineToken ''inline'' 2 [], unmappedToken ''heading_close'',
      lineToken ''heading_open'' 5 ''##'', lineToken ''inline'' 5 [], unmappedToken ''heading_close'',
      lineToken ''paragraph_open'' 6 [], lineToken ''inline'' 6 [], unmappedToken ''paragraph_close'',
      lineToken ''hr'' 9 ''---'']"
  have doc: "sampleDoc = ?pre @ ?h # ?post" by (simp add: sampleDoc_def)
  have sl: "slideLevel (revealEditorLocation sampleExternals 2 12 sampleDoc) = Num 1"
    by (simp add: run_defs yaml_defs item_defs sample_defs doc_defs)
  have m: "tok_map ?h = Some (2, 3)" and ty: "tok_type ?h = ''heading_open''"
    and mk: "tok_markup ?h = ''#''"
    by (simp_all add: lineToken_def)
  have le: "js_le sampleExternals (getHeaderLevel sampleExternals (tok_markup ?h))
      (slideLevel (revealEditorLocation sampleExternals 2 12 (?pre @ ?h # ?post)))"
    unfolding doc [symmetric] sl mk by (simp add: js_le_def sample_defs)
  have pre: "\<forall>t \<in> set ?pre. \<not> startsAfter 2 t"
    by (simp add: startsAfter_def lineToken_def)
  have c1: "slideCount sampleExternals (Num 1) (allTokenItems sampleExternals ?pre) = 1"
    by (simp add: slideCount_def allTokenItems_def tokenItems_def advances_def lineToken_def item_defs)
  have c2: "slideCount sampleExternals (Num 1)
      (allTokenItems sampleExternals (takeWhile (\<lambda>t. \<not> startsAfter 2 t) ?post)) = 0"
    by (simp add: slideCount_def allTokenItems_def tokenItems_def advances_def lineToken_def
        unmappedToken_def startsAfter_def item_defs)
  from C7_cursor_at_heading_counts_it [where n = 12, OF m ty le pre]
  have "revealSlideIndex sampleExternals 2 12 sampleDoc = 1"
    unfolding doc [symmetric] sl c1 c2 by simp
  moreover from le have "js_le sampleExternals (getHeaderLevel sampleExternals ''#'')
     (slideLevel (revealEditorLocation sampleExternals 2 12 sampleDoc))"
    unfolding doc [symmetric] mk .
  ultimately show ?thesis by simp
qed

text \<open>
  C8. For a document without heading tokens and without horizontal-rule tokens (and, being
  a document, with at most one front-matter block), \<open>revealSlideIndex\<close> returns 0 for every
  cursor line.
\<close>

theorem C8_no_boundaries_ordinal_zero:
  assumes "\<forall>t \<in> set toks. tok_type t \<noteq> ''heading_open'' \<and> tok_type t \<noteq> ''hr''"
    and "length (filter mappedFrontMatter toks) \<le> 1"
  shows "revealSlideIndex E c n toks = 0"
proof -
  let ?pre = "takeWhile (\<lambda>t. \<not> startsAfter c t) toks"
  have "\<forall>t \<in> set ?pre. tok_type t \<noteq> ''heading_open'' \<and> tok_type t \<noteq> ''hr''"
    using assms(1) by (blast dest: set_takeWhileD)
  then have "slideCount E (slideLevel (revealEditorLocation E c n toks)) (allTokenItems E ?pre)
      = int (length (filter mappedFrontMatter ?pre))"
    by (rule slideCount_plain)
  moreover have "length (filter mappedFrontMatter ?pre) \<le> 1"
    using filter_takeWhile_le [of mappedFrontMatter "\<lambda>t. \<not> startsAfter c t" toks] assms(2)
    by linarith
  ultimately show ?thesis
    by (simp add: revealSlideIndex_closed_form)
qed

theorem C8_witness:
  "length (filter (\<lambda>t. tok_type t = ''heading_open'' \<or> tok_type t = ''hr'') plainDoc) = 0
   \<and> length (filter mappedFrontMatter plainDoc) = 1
   \<and> revealSlideIndex sampleExternals 5 8 plainDoc = 0"
proof -
  have a: "\<forall>t \<in> set plainDoc. tok_type t \<noteq> ''heading_open'' \<and> tok_type t \<noteq> ''hr''"
    by (simp add: doc_defs lineToken_def)
  have b: "length (filter mappedFrontMatter plainDoc) = 1"
    by (simp add: doc_defs lineToken_def mappedFrontMatter_def)
  have c: "length (filter (\<lambda>t. tok_type t = ''heading_open'' \<or> tok_type t = ''hr'') plainDoc) = 0"
    by (simp add: doc_defs lineToken_def)
  from C8_no_boundaries_ordinal_zero [where E = sampleExternals and c = 5 and n = 8, OF a] b c
  show ?thesis by simp
qed

text \<open>
  C9. For every token stream and cursor position the items built by
  \<open>revealEditorLocation\<close> contain exactly one cursor item: it carries the cursor line when
  some mapped token starts strictly after it, and the document's last line otherwise. The
  loop of \<open>revealSlideIndex\<close> therefore returns at that item (\<open>Some\<close>), and the fallback
  after the loop is never reached.
\<close>

theorem C9_exactly_one_cursor:
  "filter (\<lambda>i. type i = kCursor) (items (revealEditorLocation E c n toks)) =
     [cursorItem (if \<exists>t \<in> set toks. startsAfter c t then c else n - 1)]
   \<and> slideIndexLoop E (slideLevel (revealEditorLocation E c n toks)) (- 1)
        (items (revealEditorLocation E c n toks)) = Some (revealSlideIndex E c n toks)"
proof -
  have nc: "\<And>xs. filter (\<lambda>i. type i = kCursor) (allTokenItems E xs) = []"
    by (auto simp: filter_empty_conv dest: allTokenItems_no_cursor)
  have "\<forall>i \<in> set (allTokenItems E (takeWhile (\<lambda>t. \<not> startsAfter c t) toks)). type i \<noteq> kCursor"
    by (blast dest: allTokenItems_no_cursor)
  from slideIndexLoop_cursor [OF this]
  show ?thesis
    by (simp add: items_closed_form nc revealSlideIndex_closed_form) (simp add: item_defs)
qed

theorem C9_witness:
  "filter (\<lambda>i. type i = kCursor) (items (revealEditorLocation sampleExternals 6 12 sampleDoc))
     = [cursorItem 6]
   \<and> slideIndexLoop sampleExternals (slideLevel (revealEditorLocation sampleExternals 6 12 sampleDoc))
        (- 1) (items (revealEditorLocation sampleExternals 6 12 sampleDoc)) = Some 1"
proof -
  have a: "(\<exists>t \<in> set sampleDoc. startsAfter 6 t)"
    by (simp add: doc_defs lineToken_def startsAfter_def)
  have b: "revealSlideIndex sampleExternals 6 12 sampleDoc = 1"
    by (simp add: run_defs yaml_defs item_defs sample_defs doc_defs)
  from C9_exactly_one_cursor [of sampleExternals 6 12 sampleDoc] a b
  show ?thesis by simp
qed

text \<open>
  C10. The resolved slide level does not depend on the cursor position: for a fixed token
  stream, two runs of \<open>revealEditorLocation\<close> at any two cursor lines give the same
  \<open>slideLevel\<close>.
\<close>

theorem C10_slideLevel_cursor_independent:
  "slideLevel (revealEditorLocation E c1 n toks) = slideLevel (revealEditorLocation E c2 n toks)"
  by (rule slideLevel_cursor_independent)

theorem C10_witness:
  "slideLevel (revealEditorLocation sampleExternals 1 12 sampleDoc) = Num 1
   \<and> slideLevel (revealEditorLocation sampleExternals 6 12 sampleDoc) = Num 1"
proof -
  have "slideLevel (revealEditorLocation sampleExternals 1 12 sampleDoc) = Num 1"
    by (simp add: run_defs yaml_defs item_defs sample_defs doc_defs)
  with C10_slideLevel_cursor_independent [of sampleExternals 1 12 sampleDoc 6]
  show ?thesis by simp
qed

end
